theory Spec2Isabelle
  imports Complex_Main
begin

section \<open>Status taxonomy (statusCodes.ts)\<close>

text \<open>
  JavaScript strings are modelled as \<^typ>\<open>string\<close>: a list of bytes holding the UTF-8
  encoding of the text (a lone surrogate as the three bytes of its code unit). All
  characters the code compares against are ASCII.
\<close>

datatype StatusCodeCategory = SUCCESS | CLIENT_ERROR | SERVER_ERROR | SIMULATOR | CUSTOM

text \<open>The values of the enum \<open>StatusCode\<close>, in declaration order.\<close>

definition StatusCode_values :: "string list" where
  "StatusCode_values =
     [''200'', ''201'', ''202'',
      ''400'', ''401'', ''403'', ''404'', ''405'', ''408'', ''409'',
      ''500'', ''501'', ''502'', ''503'', ''504'',
      ''600'', ''601'', ''602'', ''603'', ''604'', ''605'', ''606'',
      ''900'', ''901'', ''902'', ''903'', ''904'', ''905'', ''906'', ''907'', ''908'', ''909'']"

text \<open>\<open>Object.values(StatusCode).includes(code)\<close>\<close>

definition isValidStatusCode :: "string \<Rightarrow> bool" where
  "isValidStatusCode code = (code \<in> set StatusCode_values)"

subsection \<open>\<open>parseInt(code, 10)\<close>\<close>

text \<open>
  \<open>parseInt\<close> is the ECMAScript built-in. With radix 10 it removes leading white space
  (the \<open>WhiteSpace\<close> and \<open>LineTerminator\<close> code points), reads an optional sign, and then
  the longest run of decimal digits; whatever follows the digits is ignored. Without a
  digit the result is \<open>NaN\<close>, here \<open>None\<close>. The result is kept as an exact integer: the
  rounding of integers beyond \<open>2^53\<close> to a double cannot move a value across any of the
  bounds the code compares with.
\<close>

definition is_digit :: "char \<Rightarrow> bool" where
  "is_digit c = (48 \<le> (of_char c :: nat) \<and> (of_char c :: nat) \<le> 57)"

definition digit_val :: "char \<Rightarrow> nat" where
  "digit_val c = of_char c - 48"

fun digits_value :: "nat \<Rightarrow> string \<Rightarrow> nat" where
  "digits_value acc [] = acc"
| "digits_value acc (c # cs) = digits_value (acc * 10 + digit_val c) cs"

text \<open>
  The white space of \<open>TrimString\<close>, as UTF-8: TAB, LF, VT, FF, CR, SP; U+00A0; U+1680,
  U+2000 to U+200A, U+2028, U+2029, U+202F, U+205F, U+3000 and U+FEFF.
\<close>

definition ws1 :: "string list" where
  "ws1 = [[CHR 0x09], [CHR 0x0A], [CHR 0x0B], [CHR 0x0C], [CHR 0x0D], [CHR 0x20]]"

definition ws2 :: "string list" where
  "ws2 = [[CHR 0xC2, CHR 0xA0]]"

definition ws3 :: "string list" where
  "ws3 = [[CHR 0xE1, CHR 0x9A, CHR 0x80],
          [CHR 0xE2, CHR 0x80, CHR 0x80], [CHR 0xE2, CHR 0x80, CHR 0x81],
          [CHR 0xE2, CHR 0x80, CHR 0x82], [CHR 0xE2, CHR 0x80, CHR 0x83],
          [CHR 0xE2, CHR 0x80, CHR 0x84], [CHR 0xE2, CHR 0x80, CHR 0x85],
          [CHR 0xE2, CHR 0x80, CHR 0x86], [CHR 0xE2, CHR 0x80, CHR 0x87],
          [CHR 0xE2, CHR 0x80, CHR 0x88], [CHR 0xE2, CHR 0x80, CHR 0x89],
          [CHR 0xE2, CHR 0x80, CHR 0x8A],
          [CHR 0xE2, CHR 0x80, CHR 0xA8], [CHR 0xE2, CHR 0x80, CHR 0xA9],
          [CHR 0xE2, CHR 0x80, CHR 0xAF], [CHR 0xE2, CHR 0x81, CHR 0x9F],
          [CHR 0xE3, CHR 0x80, CHR 0x80], [CHR 0xEF, CHR 0xBB, CHR 0xBF]]"

text \<open>The length in bytes of a white-space character at the head of the string, or 0.\<close>

definition ws_head :: "string \<Rightarrow> nat" where
  "ws_head s =
     (if take 1 s \<in> set ws1 then 1
      else if take 2 s \<in> set ws2 then 2
      else if take 3 s \<in> set ws3 then 3
      else 0)"

function trim_start :: "string \<Rightarrow> string" where
  "trim_start s = (if ws_head s = 0 then s else trim_start (drop (ws_head s) s))"
  by pat_completeness auto
termination
proof (relation "measure length")
  show "wf (measure length)" by simp
next
  fix s :: string
  assume "ws_head s \<noteq> 0"
  then have "s \<noteq> []" by (auto simp: ws_head_def ws1_def ws2_def ws3_def)
  with \<open>ws_head s \<noteq> 0\<close> show "(drop (ws_head s) s, s) \<in> measure length"
    by (cases s) auto
qed

declare trim_start.simps [simp del]

definition parseInt10 :: "string \<Rightarrow> int option" where
  "parseInt10 code =
     (let S = trim_start code;
          sign = (if S \<noteq> [] \<and> hd S = CHR ''-'' then - 1 else 1 :: int);
          S1 = (if S \<noteq> [] \<and> (hd S = CHR ''+'' \<or> hd S = CHR ''-'') then tl S else S);
          Z = takeWhile is_digit S1
      in if Z = [] then None else Some (sign * int (digits_value 0 Z)))"

subsection \<open>Category and predicates\<close>

definition getStatusCodeCategory :: "string \<Rightarrow> StatusCodeCategory option" where
  "getStatusCodeCategory code =
     (case parseInt10 code of
        None \<Rightarrow> None
      | Some codeNum \<Rightarrow>
          if codeNum \<ge> 200 \<and> codeNum < 300 then Some SUCCESS
          else if codeNum \<ge> 400 \<and> codeNum < 500 then Some CLIENT_ERROR
          else if codeNum \<ge> 500 \<and> codeNum < 600 then Some SERVER_ERROR
          else if codeNum \<ge> 600 \<and> codeNum < 700 then Some SIMULATOR
          else if codeNum \<ge> 900 \<and> codeNum < 1000 then Some CUSTOM
          else None)"

definition isSuccessStatusCode :: "string \<Rightarrow> bool" where
  "isSuccessStatusCode code = (getStatusCodeCategory code = Some SUCCESS)"

definition isErrorStatusCode :: "string \<Rightarrow> bool" where
  "isErrorStatusCode code =
     (let category = getStatusCodeCategory code
      in category = Some CLIENT_ERROR \<or> category = Some SERVER_ERROR)"

definition isSimulatorStatusCode :: "string \<Rightarrow> bool" where
  "isSimulatorStatusCode code = (getStatusCodeCategory code = Some SIMULATOR)"

subsection \<open>The taxonomy as the specification words it\<close>

text \<open>The five bands of the specification, on the numeric value of a code.\<close>

definition band :: "int \<Rightarrow> StatusCodeCategory option" where
  "band n =
     (if n \<in> {200 ..< 300} then Some SUCCESS
      else if n \<in> {400 ..< 500} then Some CLIENT_ERROR
      else if n \<in> {500 ..< 600} then Some SERVER_ERROR
      else if n \<in> {600 ..< 700} then Some SIMULATOR
      else if n \<in> {900 ..< 1000} then Some CUSTOM
      else None)"

text \<open>A numeric code: a non-empty string of decimal digits.\<close>

definition numeric_code :: "string \<Rightarrow> bool" where
  "numeric_code s = (s \<noteq> [] \<and> (\<forall>c \<in> set s. is_digit c))"

section \<open>JSON values, \<open>JSON.parse\<close> and \<open>JSON.stringify\<close>\<close>

text \<open>
  \<open>JSON.parse\<close> and \<open>JSON.stringify\<close> are ECMAScript built-ins; they are modelled after
  the JSON grammar. An object is the list of its members in the order of the text,
  without duplicate keys (JavaScript enumerates integer-like keys first; the code reads
  members by name only). A number is kept as the exact decimal value of its literal; the
  rounding to a double is not modelled, except in the test for zero (\<open>num_is_zero\<close>
  below). The JavaScript value \<open>undefined\<close> is \<open>None\<close> of \<open>jsval\<close>.
\<close>

datatype json =
    JNull
  | JBool bool
  | JNum rat
  | JStr string
  | JArr "json list"
  | JObj "(string \<times> json) list"

type_synonym jsval = "json option"

subsection \<open>Tokens\<close>

datatype token =
    TLBrace | TRBrace | TLBrack | TRBrack | TColon | TComma
  | TString string | TNumber rat | TTrue | TFalse | TNull

definition is_json_ws :: "char \<Rightarrow> bool" where
  "is_json_ws c = (c = CHR 0x20 \<or> c = CHR 0x09 \<or> c = CHR 0x0A \<or> c = CHR 0x0D)"

definition punct :: "char \<Rightarrow> token option" where
  "punct c =
     (if c = CHR ''{'' then Some TLBrace
      else if c = CHR ''}'' then Some TRBrace
      else if c = CHR ''['' then Some TLBrack
      else if c = CHR '']'' then Some TRBrack
      else if c = CHR '':'' then Some TColon
      else if c = CHR '','' then Some TComma
      else None)"

definition is_num_char :: "char \<Rightarrow> bool" where
  "is_num_char c =
     (is_digit c \<or> c = CHR ''-'' \<or> c = CHR ''+'' \<or> c = CHR ''.'' \<or> c = CHR ''e'' \<or> c = CHR ''E'')"

definition scale10 :: "rat \<Rightarrow> int \<Rightarrow> rat" where
  "scale10 q e = (if 0 \<le> e then q * 10 ^ nat e else q / 10 ^ nat (- e))"

text \<open>
  The value of a number literal: an optional minus, an integer part without a leading
  zero, an optional fraction, an optional exponent, and nothing else.
\<close>

definition number_of :: "string \<Rightarrow> rat option" where
  "number_of s =
     (let neg = (take 1 s = ''-'');
          s1 = (if neg then drop 1 s else s);
          ip = takeWhile is_digit s1;
          s2 = dropWhile is_digit s1;
          has_frac = (take 1 s2 = ''.'');
          fp = (if has_frac then takeWhile is_digit (drop 1 s2) else []);
          s3 = (if has_frac then dropWhile is_digit (drop 1 s2) else s2);
          has_exp = (take 1 s3 = ''e'' \<or> take 1 s3 = ''E'');
          s4 = (if has_exp then drop 1 s3 else s3);
          eneg = (has_exp \<and> take 1 s4 = ''-'');
          s5 = (if has_exp \<and> (take 1 s4 = ''-'' \<or> take 1 s4 = ''+'') then drop 1 s4 else s4);
          ep = (if has_exp then takeWhile is_digit s5 else []);
          s6 = (if has_exp then dropWhile is_digit s5 else s5);
          e = (if eneg then - int (digits_value 0 ep) else int (digits_value 0 ep));
          m = of_nat (digits_value 0 (ip @ fp))
      in if ip \<noteq> [] \<and> (length ip = 1 \<or> hd ip \<noteq> CHR ''0'')
            \<and> (has_frac \<longrightarrow> fp \<noteq> []) \<and> (has_exp \<longrightarrow> ep \<noteq> []) \<and> s6 = []
         then Some (scale10 (if neg then - m else m) (e - int (length fp)))
         else None)"

subsection \<open>String literals\<close>

text \<open>
  A character of a string literal is a byte of the text or the code unit of a \<open>\u\<close>
  escape. Two such escapes that form a surrogate pair are one code point.
\<close>

datatype sitem = Raw char | Esc nat

definition utf8_of_code :: "nat \<Rightarrow> string" where
  "utf8_of_code n =
     (if n < 0x80 then [char_of n]
      else if n < 0x800 then [char_of (0xC0 + n div 64), char_of (0x80 + n mod 64)]
      else if n < 0x10000 then
        [char_of (0xE0 + n div 4096), char_of (0x80 + (n div 64) mod 64), char_of (0x80 + n mod 64)]
      else
        [char_of (0xF0 + n div 262144), char_of (0x80 + (n div 4096) mod 64),
         char_of (0x80 + (n div 64) mod 64), char_of (0x80 + n mod 64)])"

definition is_high_surrogate :: "nat \<Rightarrow> bool" where
  "is_high_surrogate n = (0xD800 \<le> n \<and> n \<le> 0xDBFF)"

definition is_low_surrogate :: "nat \<Rightarrow> bool" where
  "is_low_surrogate n = (0xDC00 \<le> n \<and> n \<le> 0xDFFF)"

fun decode_items :: "sitem list \<Rightarrow> string" where
  "decode_items [] = []"
| "decode_items (Raw c # r) = c # decode_items r"
| "decode_items (Esc h # Esc l # r) =
     (if is_high_surrogate h \<and> is_low_surrogate l
      then utf8_of_code (0x10000 + (h - 0xD800) * 0x400 + (l - 0xDC00)) @ decode_items r
      else utf8_of_code h @ decode_items (Esc l # r))"
| "decode_items (Esc h # r) = utf8_of_code h @ decode_items r"

definition simple_escape :: "char \<Rightarrow> char option" where
  "simple_escape c =
     (if c = CHR 0x22 then Some (CHR 0x22)
      else if c = CHR 0x5C then Some (CHR 0x5C)
      else if c = CHR ''/'' then Some (CHR ''/'')
      else if c = CHR ''b'' then Some (CHR 0x08)
      else if c = CHR ''f'' then Some (CHR 0x0C)
      else if c = CHR ''n'' then Some (CHR 0x0A)
      else if c = CHR ''r'' then Some (CHR 0x0D)
      else if c = CHR ''t'' then Some (CHR 0x09)
      else None)"

definition hex_val :: "char \<Rightarrow> nat option" where
  "hex_val c =
     (let n = (of_char c :: nat)
      in if 48 \<le> n \<and> n \<le> 57 then Some (n - 48)
         else if 65 \<le> n \<and> n \<le> 70 then Some (n - 55)
         else if 97 \<le> n \<and> n \<le> 102 then Some (n - 87)
         else None)"

subsection \<open>The lexer\<close>

datatype lmode =
    LDefault
  | LLit string token
  | LNum string
  | LStr "sitem list"
  | LEsc "sitem list"
  | LUni "sitem list" "nat list"

definition emit :: "token \<Rightarrow> token list option \<Rightarrow> token list option" where
  "emit t r = map_option (Cons t) r"

definition emit_number :: "string \<Rightarrow> token list option \<Rightarrow> token list option" where
  "emit_number acc r = (case number_of acc of None \<Rightarrow> None | Some q \<Rightarrow> emit (TNumber q) r)"

fun lex :: "lmode \<Rightarrow> string \<Rightarrow> token list option" where
  "lex LDefault [] = Some []"
| "lex (LNum acc) [] = emit_number acc (Some [])"
| "lex (LLit l t) [] = None"
| "lex (LStr acc) [] = None"
| "lex (LEsc acc) [] = None"
| "lex (LUni acc ds) [] = None"
| "lex LDefault (c # cs) =
     (if is_json_ws c then lex LDefault cs
      else if punct c \<noteq> None then emit (the (punct c)) (lex LDefault cs)
      else if c = CHR 0x22 then lex (LStr []) cs
      else if c = CHR ''-'' \<or> is_digit c then lex (LNum [c]) cs
      else if c = CHR ''t'' then lex (LLit ''rue'' TTrue) cs
      else if c = CHR ''f'' then lex (LLit ''alse'' TFalse) cs
      else if c = CHR ''n'' then lex (LLit ''ull'' TNull) cs
      else None)"
| "lex (LLit l t) (c # cs) =
     (if l = [] \<or> c \<noteq> hd l then None
      else if tl l = [] then emit t (lex LDefault cs)
      else lex (LLit (tl l) t) cs)"
| "lex (LNum acc) (c # cs) =
     (if is_num_char c then lex (LNum (acc @ [c])) cs
      else if is_json_ws c then emit_number acc (lex LDefault cs)
      else if punct c \<noteq> None then emit_number acc (emit (the (punct c)) (lex LDefault cs))
      else None)"
| "lex (LStr acc) (c # cs) =
     (if c = CHR 0x22 then emit (TString (decode_items acc)) (lex LDefault cs)
      else if c = CHR 0x5C then lex (LEsc acc) cs
      else if (of_char c :: nat) < 32 then None
      else lex (LStr (acc @ [Raw c])) cs)"
| "lex (LEsc acc) (c # cs) =
     (if c = CHR ''u'' then lex (LUni acc []) cs
      else if simple_escape c \<noteq> None then lex (LStr (acc @ [Raw (the (simple_escape c))])) cs
      else None)"
| "lex (LUni acc ds) (c # cs) =
     (if hex_val c = None then None
      else if length ds = 3
      then lex (LStr (acc @ [Esc (foldl (\<lambda>a d. a * 16 + d) 0 (ds @ [the (hex_val c)]))])) cs
      else lex (LUni acc (ds @ [the (hex_val c)])) cs)"

subsection \<open>The parser\<close>

text \<open>
  The parser reads the tokens from left to right. Its state says what may come next; the
  stack holds the arrays and objects that enclose the value being read.
\<close>

datatype pstate =
    PValue
  | PArrStart
  | PArrNext "json list"
  | PObjStart
  | PObjKey "(string \<times> json) list"
  | PObjColon "(string \<times> json) list" string
  | PObjNext "(string \<times> json) list"
  | PDone json

datatype frame = FArr "json list" | FObj "(string \<times> json) list" string

text \<open>A repeated key keeps its first position and takes the last value.\<close>

fun obj_put :: "(string \<times> json) list \<Rightarrow> string \<Rightarrow> json \<Rightarrow> (string \<times> json) list" where
  "obj_put [] k v = [(k, v)]"
| "obj_put (p # ps) k v = (if fst p = k then (k, v) # ps else p # obj_put ps k v)"

text \<open>A value is complete: it goes into the enclosing array or object, if any.\<close>

fun reduce :: "json \<Rightarrow> frame list \<Rightarrow> pstate \<times> frame list" where
  "reduce v [] = (PDone v, [])"
| "reduce v (FArr xs # st) = (PArrNext (xs @ [v]), st)"
| "reduce v (FObj kvs k # st) = (PObjNext (obj_put kvs k v), st)"

text \<open>A token that starts a value, read where a value is expected.\<close>

definition value_token :: "token \<Rightarrow> frame list \<Rightarrow> (pstate \<times> frame list) option" where
  "value_token t st =
     (case t of
        TLBrack \<Rightarrow> Some (PArrStart, st)
      | TLBrace \<Rightarrow> Some (PObjStart, st)
      | TString s \<Rightarrow> Some (reduce (JStr s) st)
      | TNumber q \<Rightarrow> Some (reduce (JNum q) st)
      | TTrue \<Rightarrow> Some (reduce (JBool True) st)
      | TFalse \<Rightarrow> Some (reduce (JBool False) st)
      | TNull \<Rightarrow> Some (reduce JNull st)
      | _ \<Rightarrow> None)"

definition pstep :: "pstate \<Rightarrow> frame list \<Rightarrow> token \<Rightarrow> (pstate \<times> frame list) option" where
  "pstep ps st t =
     (case ps of
        PValue \<Rightarrow> value_token t st
      | PArrStart \<Rightarrow>
          (if t = TRBrack then Some (reduce (JArr []) st) else value_token t (FArr [] # st))
      | PArrNext xs \<Rightarrow>
          (if t = TRBrack then Some (reduce (JArr xs) st)
           else if t = TComma then Some (PValue, FArr xs # st)
           else None)
      | PObjStart \<Rightarrow>
          (case t of
             TRBrace \<Rightarrow> Some (reduce (JObj []) st)
           | TString k \<Rightarrow> Some (PObjColon [] k, st)
           | _ \<Rightarrow> None)
      | PObjKey kvs \<Rightarrow> (case t of TString k \<Rightarrow> Some (PObjColon kvs k, st) | _ \<Rightarrow> None)
      | PObjColon kvs k \<Rightarrow> (if t = TColon then Some (PValue, FObj kvs k # st) else None)
      | PObjNext kvs \<Rightarrow>
          (if t = TRBrace then Some (reduce (JObj kvs) st)
           else if t = TComma then Some (PObjKey kvs, st)
           else None)
      | PDone v \<Rightarrow> None)"

fun parse_tokens :: "pstate \<Rightarrow> frame list \<Rightarrow> token list \<Rightarrow> json option" where
  "parse_tokens ps st [] = (case ps of PDone v \<Rightarrow> (if st = [] then Some v else None) | _ \<Rightarrow> None)"
| "parse_tokens ps st (t # ts) =
     (case pstep ps st t of None \<Rightarrow> None | Some (ps', st') \<Rightarrow> parse_tokens ps' st' ts)"

text \<open>\<open>JSON.parse(text)\<close>; \<open>None\<close> is the \<open>SyntaxError\<close> it throws.\<close>

definition JSON_parse :: "string \<Rightarrow> json option" where
  "JSON_parse text =
     (case lex LDefault text of None \<Rightarrow> None | Some ts \<Rightarrow> parse_tokens PValue [] ts)"

subsection \<open>\<open>JSON.stringify\<close>\<close>

definition hex_digit :: "nat \<Rightarrow> char" where
  "hex_digit d = (if d < 10 then char_of (48 + d) else char_of (87 + d))"

definition hex4 :: "nat \<Rightarrow> string" where
  "hex4 n = [hex_digit (n div 4096 mod 16), hex_digit (n div 256 mod 16),
             hex_digit (n div 16 mod 16), hex_digit (n mod 16)]"

definition escape_char :: "char \<Rightarrow> string" where
  "escape_char c =
     (if c = CHR 0x22 then [CHR 0x5C, CHR 0x22]
      else if c = CHR 0x5C then [CHR 0x5C, CHR 0x5C]
      else if c = CHR 0x08 then [CHR 0x5C, CHR ''b'']
      else if c = CHR 0x0C then [CHR 0x5C, CHR ''f'']
      else if c = CHR 0x0A then [CHR 0x5C, CHR ''n'']
      else if c = CHR 0x0D then [CHR 0x5C, CHR ''r'']
      else if c = CHR 0x09 then [CHR 0x5C, CHR ''t'']
      else if (of_char c :: nat) < 32 then [CHR 0x5C, CHR ''u''] @ hex4 (of_char c)
      else [c])"

text \<open>
  The characters of a quoted string. A lone surrogate (the three bytes \<open>ED A0..BF xx\<close>)
  is written as a \<open>\u\<close> escape.
\<close>

fun quote_chars :: "string \<Rightarrow> string" where
  "quote_chars (a # b # c # r) =
     (if a = CHR 0xED \<and> (of_char b :: nat) \<ge> 0xA0
      then [CHR 0x5C, CHR ''u''] @ hex4 (0xD000 + (of_char b - 0x80) * 64 + (of_char c - 0x80))
           @ quote_chars r
      else escape_char a @ quote_chars (b # c # r))"
| "quote_chars (a # r) = escape_char a @ quote_chars r"
| "quote_chars [] = []"

definition quote :: "string \<Rightarrow> string" where
  "quote s = [CHR 0x22] @ quote_chars s @ [CHR 0x22]"

text \<open>
  \<open>numstr\<close> is \<open>Number.prototype.toString\<close>, the text of a number, left open.
\<close>

fun JSON_stringify :: "(rat \<Rightarrow> string) \<Rightarrow> json \<Rightarrow> string"
  and stringify_elements :: "(rat \<Rightarrow> string) \<Rightarrow> json list \<Rightarrow> string"
  and stringify_members :: "(rat \<Rightarrow> string) \<Rightarrow> (string \<times> json) list \<Rightarrow> string" where
  "JSON_stringify numstr JNull = ''null''"
| "JSON_stringify numstr (JBool b) = (if b then ''true'' else ''false'')"
| "JSON_stringify numstr (JNum q) = numstr q"
| "JSON_stringify numstr (JStr s) = quote s"
| "JSON_stringify numstr (JArr xs) = ''['' @ stringify_elements numstr xs @ '']''"
| "JSON_stringify numstr (JObj kvs) = ''{'' @ stringify_members numstr kvs @ ''}''"
| "stringify_elements numstr [] = []"
| "stringify_elements numstr [x] = JSON_stringify numstr x"
| "stringify_elements numstr (x # y # r) =
     JSON_stringify numstr x @ '','' @ stringify_elements numstr (y # r)"
| "stringify_members numstr [] = []"
| "stringify_members numstr [(k, v)] = quote k @ '':'' @ JSON_stringify numstr v"
| "stringify_members numstr ((k, v) # m # r) =
     quote k @ '':'' @ JSON_stringify numstr v @ '','' @ stringify_members numstr (m # r)"

section \<open>The server (AviaConnectorServer.ts)\<close>

subsection \<open>JavaScript values and exceptions\<close>

text \<open>
  A number is zero for JavaScript when its double is: when its magnitude is at most
  \<open>2^-1075\<close>, half of the smallest positive double.
\<close>

definition num_is_zero :: "rat \<Rightarrow> bool" where
  "num_is_zero q = (\<bar>q\<bar> \<le> 1 / 2 ^ 1075)"

text \<open>Truthiness, as tested by \<open>!data\<close>, \<open>obj && ...\<close> and \<open>if (this.client)\<close>.\<close>

definition truthy :: "jsval \<Rightarrow> bool" where
  "truthy v =
     (case v of
        None \<Rightarrow> False
      | Some JNull \<Rightarrow> False
      | Some (JBool b) \<Rightarrow> b
      | Some (JNum q) \<Rightarrow> \<not> num_is_zero q
      | Some (JStr s) \<Rightarrow> s \<noteq> []
      | Some (JArr xs) \<Rightarrow> True
      | Some (JObj kvs) \<Rightarrow> True)"

definition typeof :: "jsval \<Rightarrow> string" where
  "typeof v =
     (case v of
        None \<Rightarrow> ''undefined''
      | Some JNull \<Rightarrow> ''object''
      | Some (JBool b) \<Rightarrow> ''boolean''
      | Some (JNum q) \<Rightarrow> ''number''
      | Some (JStr s) \<Rightarrow> ''string''
      | Some (JArr xs) \<Rightarrow> ''object''
      | Some (JObj kvs) \<Rightarrow> ''object'')"

text \<open>\<open>a ?? b\<close>: \<open>b\<close> when \<open>a\<close> is \<open>null\<close> or \<open>undefined\<close>, else \<open>a\<close>.\<close>

definition nullish :: "jsval \<Rightarrow> bool" where
  "nullish v = (v = None \<or> v = Some JNull)"

definition coalesce :: "jsval \<Rightarrow> jsval \<Rightarrow> jsval" where
  "coalesce a b = (if nullish a then b else a)"

text \<open>
  An \<open>Error\<close> object is identified by the argument of its constructor. A thrown value is
  an \<open>Error\<close> or something else, which is carried by the text \<open>String(err)\<close> gives for it.
\<close>

datatype js_error = Error_new jsval | SyntaxError | TypeError

datatype thrown = Thrown_error js_error | Thrown_other string

type_synonym 'a outcome = "thrown + 'a"

text \<open>\<open>err instanceof Error ? err : new Error(String(err))\<close>\<close>

definition to_error :: "thrown \<Rightarrow> js_error" where
  "to_error err = (case err of Thrown_error e \<Rightarrow> e | Thrown_other t \<Rightarrow> Error_new (Some (JStr t)))"

text \<open>
  Reading the property \<open>k\<close> of a value. On \<open>null\<close> and \<open>undefined\<close> it throws a
  \<open>TypeError\<close>. The code reads \<open>type\<close>, \<open>data\<close>, \<open>Aircraft\<close>, \<open>message\<close> and the four status
  fields: a number, a boolean, a string and an array have none of them, and an object has
  one only as a member of its own, since no prototype defines them.
\<close>

definition getp :: "jsval \<Rightarrow> string \<Rightarrow> jsval outcome" where
  "getp v k =
     (case v of
        None \<Rightarrow> Inl (Thrown_error TypeError)
      | Some JNull \<Rightarrow> Inl (Thrown_error TypeError)
      | Some (JObj kvs) \<Rightarrow> Inr (map_of kvs k)
      | Some _ \<Rightarrow> Inr None)"

subsection \<open>State, callbacks and effects\<close>

type_synonym handle = nat

datatype ready_state = CONNECTING | OPEN | CLOSING | CLOSED

record SimulatorStatus =
  last_error :: jsval
  simulator_connected :: jsval
  simulator_loaded :: jsval
  simulator_name :: jsval

record StatusMessage =
  sm_code :: string
  sm_message :: string

text \<open>What the server does to the outside: the callbacks it calls and its socket calls.\<close>

datatype event =
    Called_onListening string
  | Called_onConnection unit
  | Called_onDisconnect unit
  | Called_onAircraftData jsval
  | Called_onSimulatorStatus SimulatorStatus
  | Called_onStatusMessage StatusMessage
  | Called_onPong jsval
  | Called_onError js_error
  | Ws_close handle nat string
  | Ws_send handle string
  | Wss_close

text \<open>
  A callback is a function of its argument that returns (\<open>None\<close>) or throws. Callbacks
  that call back into the server are not modelled.
\<close>

type_synonym 'a callback = "('a \<Rightarrow> thrown option) option"

record options =
  port :: rat
  host :: "string option"
  path :: "string option"
  onListening :: "string callback"
  onConnection :: "unit callback"
  onDisconnect :: "unit callback"
  onAircraftData :: "jsval callback"
  onSimulatorStatus :: "SimulatorStatus callback"
  onStatusMessage :: "StatusMessage callback"
  onPong :: "jsval callback"
  onError :: "js_error callback"

text \<open>
  The fields of the class, the sockets that have their \<open>message\<close>, \<open>close\<close> and \<open>error\<close>
  handlers attached, the \<open>readyState\<close> each socket reports, and the effects so far.
\<close>

record server =
  client :: "handle option"
  simulatorStatus :: SimulatorStatus
  attached :: "handle set"
  readyState :: "handle \<Rightarrow> ready_state"
  trace :: "event list"

text \<open>
  The library functions the code calls, left open: the UTF-8 decoding of a buffer, the
  text of a number, and whether \<open>WebSocket.send\<close> throws. \<open>WebSocket.close\<close> with the code
  1000 and a short reason does not throw.
\<close>

record platform =
  utf8_toString :: "string \<Rightarrow> string"
  Number_toString :: "rat \<Rightarrow> string"
  ws_send_throws :: "handle \<Rightarrow> string \<Rightarrow> thrown option"

type_synonym 'a result = "server \<times> 'a outcome"

definition init_server :: "(handle \<Rightarrow> ready_state) \<Rightarrow> server" where
  "init_server rs =
     \<lparr>client = None,
      simulatorStatus =
        \<lparr>last_error = Some (JNum 0), simulator_connected = Some (JBool False),
         simulator_loaded = Some (JBool False), simulator_name = None\<rparr>,
      attached = {},
      readyState = rs,
      trace = []\<rparr>"

definition emit_event :: "event \<Rightarrow> server \<Rightarrow> server" where
  "emit_event e s = s\<lparr>trace := trace s @ [e]\<rparr>"

text \<open>\<open>this.cb?.(a)\<close>: nothing when the callback is absent.\<close>

definition invoke :: "'a callback \<Rightarrow> ('a \<Rightarrow> event) \<Rightarrow> 'a \<Rightarrow> server \<Rightarrow> unit result" where
  "invoke cb ev a s =
     (case cb of
        None \<Rightarrow> (s, Inr ())
      | Some f \<Rightarrow> (emit_event (ev a) s, case f a of None \<Rightarrow> Inr () | Some e \<Rightarrow> Inl e))"

text \<open>Sequencing: a thrown exception skips the rest.\<close>

definition and_then :: "unit result \<Rightarrow> (server \<Rightarrow> 'a result) \<Rightarrow> 'a result" where
  "and_then r k = (case r of (s, Inl e) \<Rightarrow> (s, Inl e) | (s, Inr u) \<Rightarrow> k s)"

definition reading :: "'a outcome \<Rightarrow> server \<Rightarrow> ('a \<Rightarrow> 'b result) \<Rightarrow> 'b result" where
  "reading r s k = (case r of Inl e \<Rightarrow> (s, Inl e) | Inr v \<Rightarrow> k v)"

subsection \<open>\<open>parseMessage\<close>\<close>

text \<open>
  A frame as the transport delivers it: a string, a \<open>Buffer\<close>, an \<open>ArrayBuffer\<close>, or an
  array of chunks, each a \<open>Buffer\<close> or something \<open>Buffer.from\<close> turns into one. The last
  branch of the source, \<open>String(raw)\<close> for any other value, is for values the transport
  does not deliver and is left out.
\<close>

datatype chunk = ChunkBuffer string | ChunkOther string

datatype raw = RawString string | RawBuffer string | RawArrayBuffer string | RawChunks "chunk list"

definition chunk_bytes :: "chunk \<Rightarrow> string" where
  "chunk_bytes c = (case c of ChunkBuffer b \<Rightarrow> b | ChunkOther b \<Rightarrow> b)"

definition frame_text :: "platform \<Rightarrow> raw \<Rightarrow> string" where
  "frame_text P r =
     (case r of
        RawString t \<Rightarrow> t
      | RawBuffer b \<Rightarrow> utf8_toString P b
      | RawArrayBuffer b \<Rightarrow> utf8_toString P b
      | RawChunks cs \<Rightarrow> utf8_toString P (concat (map chunk_bytes cs)))"

definition unknown_envelope :: "json \<Rightarrow> json" where
  "unknown_envelope d = JObj [(''type'', JStr ''unknown''), (''data'', d)]"

text \<open>The body of the \<open>try\<close> block: \<open>JSON.parse\<close> and the test of \<open>obj.type\<close>.\<close>

definition parse_attempt :: "string \<Rightarrow> json outcome" where
  "parse_attempt text =
     (case JSON_parse text of
        None \<Rightarrow> Inl (Thrown_error SyntaxError)
      | Some obj \<Rightarrow>
          if \<not> truthy (Some obj) then Inr (unknown_envelope obj)
          else (case getp (Some obj) ''type'' of
                  Inl e \<Rightarrow> Inl e
                | Inr t \<Rightarrow> if typeof t = ''string'' then Inr obj else Inr (unknown_envelope obj)))"

definition parseMessage :: "platform \<Rightarrow> raw \<Rightarrow> json outcome" where
  "parseMessage P r =
     (let text = frame_text P r
      in case parse_attempt text of
           Inl e \<Rightarrow> Inr (unknown_envelope (JStr text))
         | Inr m \<Rightarrow> Inr m)"

subsection \<open>\<open>handleMessage\<close>\<close>

definition merge_status :: "jsval \<Rightarrow> jsval \<Rightarrow> jsval \<Rightarrow> jsval \<Rightarrow> SimulatorStatus \<Rightarrow> SimulatorStatus" where
  "merge_status le sc sl sn cur =
     \<lparr>last_error = coalesce le (last_error cur),
      simulator_connected = coalesce sc (simulator_connected cur),
      simulator_loaded = coalesce sl (simulator_loaded cur),
      simulator_name = coalesce sn (simulator_name cur)\<rparr>"

definition handleMessage :: "options \<Rightarrow> json \<Rightarrow> server \<Rightarrow> unit result" where
  "handleMessage opts msg s =
     reading (getp (Some msg) ''type'') s (\<lambda>mtype.
     reading (getp (Some msg) ''data'') s (\<lambda>data.
       if mtype = Some (JStr ''AircraftData'') then
         (if \<not> truthy data then (s, Inr ())
          else reading (getp data ''Aircraft'') s (\<lambda>aircraft.
                 invoke (onAircraftData opts) Called_onAircraftData (coalesce aircraft data) s))
       else if mtype = Some (JStr ''Status'') then
         (if \<not> truthy data then (s, Inr ())
          else reading (getp data ''last_error'') s (\<lambda>le.
               reading (getp data ''simulator_connected'') s (\<lambda>sc.
               reading (getp data ''simulator_loaded'') s (\<lambda>sl.
               reading (getp data ''simulator_name'') s (\<lambda>sn.
                 let st = merge_status le sc sl sn (simulatorStatus s)
                 in invoke (onSimulatorStatus opts) Called_onSimulatorStatus st
                      (s\<lparr>simulatorStatus := st\<rparr>))))))
       else if mtype = Some (JStr ''pong'') then
         (if \<not> truthy data then (s, Inr ())
          else invoke (onPong opts) Called_onPong data s)
       else if mtype = Some (JStr ''Error'') \<or> mtype = Some (JStr ''error'') then
         (if typeof data = ''string''
          then invoke (onError opts) Called_onError (Error_new data) s
          else reading (if nullish data then Inr None else getp data ''message'') s (\<lambda>m.
                 invoke (onError opts) Called_onError
                   (Error_new (coalesce m (Some (JStr ''Unknown error'')))) s))
       else (s, Inr ())))"

subsection \<open>The handlers of the transport's events\<close>

text \<open>The \<open>connection\<close> handler, in its three steps.\<close>

definition evict :: "server \<Rightarrow> server" where
  "evict s =
     (case client s of
        None \<Rightarrow> s
      | Some old \<Rightarrow> emit_event (Ws_close old 1000 ''New client connected'') s)"

definition adopt :: "handle \<Rightarrow> server \<Rightarrow> server" where
  "adopt ws s = s\<lparr>client := Some ws\<rparr>"

definition on_connection :: "options \<Rightarrow> handle \<Rightarrow> server \<Rightarrow> unit result" where
  "on_connection opts ws s =
     and_then (invoke (onConnection opts) Called_onConnection () (adopt ws (evict s)))
       (\<lambda>s'. (s'\<lparr>attached := insert ws (attached s')\<rparr>, Inr ()))"

text \<open>The \<open>message\<close> handler of a socket: \<open>try { parse; handle } catch { onError }\<close>.\<close>

definition on_message :: "platform \<Rightarrow> options \<Rightarrow> raw \<Rightarrow> server \<Rightarrow> unit result" where
  "on_message P opts r s =
     (case reading (parseMessage P r) s (\<lambda>m. handleMessage opts m s) of
        (s', Inl err) \<Rightarrow> invoke (onError opts) Called_onError (to_error err) s'
      | (s', Inr u) \<Rightarrow> (s', Inr ()))"

definition on_close :: "options \<Rightarrow> handle \<Rightarrow> server \<Rightarrow> unit result" where
  "on_close opts ws s =
     (if client s = Some ws
      then invoke (onDisconnect opts) Called_onDisconnect () (s\<lparr>client := None\<rparr>)
      else (s, Inr ()))"

definition on_error :: "options \<Rightarrow> js_error \<Rightarrow> server \<Rightarrow> unit result" where
  "on_error opts err s = invoke (onError opts) Called_onError err s"

definition on_listening :: "platform \<Rightarrow> options \<Rightarrow> server \<Rightarrow> unit result" where
  "on_listening P opts s =
     invoke (onListening opts) Called_onListening
       (''ws://'' @ (case host opts of None \<Rightarrow> ''0.0.0.0'' | Some h \<Rightarrow> h) @ '':''
          @ Number_toString P (port opts) @ (case path opts of None \<Rightarrow> [] | Some p \<Rightarrow> p)) s"

subsection \<open>The public methods\<close>

text \<open>\<open>typeof data === "string" ? data : JSON.stringify(data)\<close>\<close>

definition serialize :: "platform \<Rightarrow> json \<Rightarrow> string" where
  "serialize P data = (case data of JStr t \<Rightarrow> t | _ \<Rightarrow> JSON_stringify (Number_toString P) data)"

definition send :: "platform \<Rightarrow> options \<Rightarrow> json \<Rightarrow> server \<Rightarrow> bool result" where
  "send P opts data s =
     (case client s of
        None \<Rightarrow> (s, Inr False)
      | Some ws \<Rightarrow>
          if readyState s ws \<noteq> OPEN then (s, Inr False)
          else (case ws_send_throws P ws (serialize P data) of
                  None \<Rightarrow> (emit_event (Ws_send ws (serialize P data)) s, Inr True)
                | Some err \<Rightarrow>
                    and_then (invoke (onError opts) Called_onError (to_error err) s)
                      (\<lambda>s'. (s', Inr False))))"

definition requestAircraftData_payload :: json where
  "requestAircraftData_payload =
     JObj [(''type'', JStr ''request''), (''data'', JObj [(''type'', JStr ''AircraftData'')])]"

definition requestSimulatorStatus_payload :: json where
  "requestSimulatorStatus_payload = JObj [(''type'', JStr ''Status''), (''data'', JObj [])]"

definition ping_payload :: json where
  "ping_payload = JObj [(''type'', JStr ''ping'')]"

definition requestAircraftData :: "platform \<Rightarrow> options \<Rightarrow> server \<Rightarrow> bool result" where
  "requestAircraftData P opts s = send P opts requestAircraftData_payload s"

definition requestSimulatorStatus :: "platform \<Rightarrow> options \<Rightarrow> server \<Rightarrow> bool result" where
  "requestSimulatorStatus P opts s = send P opts requestSimulatorStatus_payload s"

definition ping :: "platform \<Rightarrow> options \<Rightarrow> server \<Rightarrow> bool result" where
  "ping P opts s = send P opts ping_payload s"

definition getSimulatorStatus :: "server \<Rightarrow> SimulatorStatus" where
  "getSimulatorStatus s = simulatorStatus s"

definition isSimulatorConnected :: "server \<Rightarrow> bool" where
  "isSimulatorConnected s = (simulator_connected (simulatorStatus s) = Some (JBool True))"

definition isSimulatorLoaded :: "server \<Rightarrow> bool" where
  "isSimulatorLoaded s = (simulator_loaded (simulatorStatus s) = Some (JBool True))"

definition getSimulatorName :: "server \<Rightarrow> jsval" where
  "getSimulatorName s = simulator_name (simulatorStatus s)"

definition isClientConnected :: "server \<Rightarrow> bool" where
  "isClientConnected s = (case client s of None \<Rightarrow> False | Some ws \<Rightarrow> readyState s ws = OPEN)"

definition close_server :: "server \<Rightarrow> server" where
  "close_server s =
     emit_event Wss_close
       (case client s of
          None \<Rightarrow> s
        | Some ws \<Rightarrow> (emit_event (Ws_close ws 1000 ''Server closing'') s)\<lparr>client := None\<rparr>)"

subsection \<open>Runs of the server\<close>

text \<open>
  What can happen to a server: an event of the transport or a call of a public method.
  The handlers of a socket run only once they are attached. An exception that leaves a
  handler goes to the caller; the state stays as the handler left it.
\<close>

datatype input =
    Listening
  | Connection handle
  | Message handle raw
  | Close handle
  | SocketError handle js_error
  | ServerError js_error
  | CallSend json
  | CallRequestAircraftData
  | CallRequestSimulatorStatus
  | CallPing
  | CallClose

definition step :: "platform \<Rightarrow> options \<Rightarrow> server \<Rightarrow> input \<Rightarrow> server" where
  "step P opts s i =
     (case i of
        Listening \<Rightarrow> fst (on_listening P opts s)
      | Connection ws \<Rightarrow> fst (on_connection opts ws s)
      | Message ws r \<Rightarrow> if ws \<in> attached s then fst (on_message P opts r s) else s
      | Close ws \<Rightarrow> if ws \<in> attached s then fst (on_close opts ws s) else s
      | SocketError ws err \<Rightarrow> if ws \<in> attached s then fst (on_error opts err s) else s
      | ServerError err \<Rightarrow> fst (on_error opts err s)
      | CallSend data \<Rightarrow> fst (send P opts data s)
      | CallRequestAircraftData \<Rightarrow> fst (requestAircraftData P opts s)
      | CallRequestSimulatorStatus \<Rightarrow> fst (requestSimulatorStatus P opts s)
      | CallPing \<Rightarrow> fst (ping P opts s)
      | CallClose \<Rightarrow> close_server s)"

definition run :: "platform \<Rightarrow> options \<Rightarrow> server \<Rightarrow> input list \<Rightarrow> server" where
  "run P opts s inputs = foldl (step P opts) s inputs"

subsection \<open>The behaviour as the specification words it\<close>


text \<open>
  The partial status update that the data of a \<open>Status\<close> envelope carries: for each of the
  four fields its value, or \<open>None\<close> when the field is absent.
\<close>

definition field_of :: "jsval \<Rightarrow> string \<Rightarrow> jsval" where
  "field_of data k = (case getp data k of Inl e \<Rightarrow> None | Inr v \<Rightarrow> v)"

definition update_of :: "jsval \<Rightarrow> SimulatorStatus" where
  "update_of data =
     \<lparr>last_error = field_of data ''last_error'',
      simulator_connected = field_of data ''simulator_connected'',
      simulator_loaded = field_of data ''simulator_loaded'',
      simulator_name = field_of data ''simulator_name''\<rparr>"

text \<open>
  A partial \<open>SimulatorStatus\<close>: each field is absent or holds a value. The interface
  declares the fields as number, boolean, boolean and string; \<open>null\<close> is no value of these.
\<close>

definition partial_status :: "SimulatorStatus \<Rightarrow> bool" where
  "partial_status u =
     (last_error u \<noteq> Some JNull \<and> simulator_connected u \<noteq> Some JNull
      \<and> simulator_loaded u \<noteq> Some JNull \<and> simulator_name u \<noteq> Some JNull)"

text \<open>The merge of the specification: the update's field if present, else the current one.\<close>

definition merge_field :: "jsval \<Rightarrow> jsval \<Rightarrow> jsval" where
  "merge_field u cur = (case u of None \<Rightarrow> cur | Some v \<Rightarrow> Some v)"

definition merge_spec :: "SimulatorStatus \<Rightarrow> SimulatorStatus \<Rightarrow> SimulatorStatus" where
  "merge_spec u cur =
     \<lparr>last_error = merge_field (last_error u) (last_error cur),
      simulator_connected = merge_field (simulator_connected u) (simulator_connected cur),
      simulator_loaded = merge_field (simulator_loaded u) (simulator_loaded cur),
      simulator_name = merge_field (simulator_name u) (simulator_name cur)\<rparr>"

text \<open>
  The merge as the code has it: the update's field if present and not \<open>null\<close>, else the
  current one.
\<close>

definition merge_field_present :: "jsval \<Rightarrow> jsval \<Rightarrow> jsval" where
  "merge_field_present u cur =
     (case u of None \<Rightarrow> cur | Some v \<Rightarrow> if v = JNull then cur else Some v)"

definition merge_present :: "SimulatorStatus \<Rightarrow> SimulatorStatus \<Rightarrow> SimulatorStatus" where
  "merge_present u cur =
     \<lparr>last_error = merge_field_present (last_error u) (last_error cur),
      simulator_connected =
        merge_field_present (simulator_connected u) (simulator_connected cur),
      simulator_loaded = merge_field_present (simulator_loaded u) (simulator_loaded cur),
      simulator_name = merge_field_present (simulator_name u) (simulator_name cur)\<rparr>"


text \<open>The types that \<open>handleMessage\<close> acts on.\<close>

definition handled_types :: "string list" where
  "handled_types = [''AircraftData'', ''Status'', ''pong'', ''Error'', ''error'']"

text \<open>No call of the \<open>onStatusMessage\<close> callback among the effects.\<close>

definition is_onStatusMessage :: "event \<Rightarrow> bool" where
  "is_onStatusMessage e = (case e of Called_onStatusMessage m \<Rightarrow> True | _ \<Rightarrow> False)"

definition no_status_message :: "event list \<Rightarrow> bool" where
  "no_status_message es = (\<forall>e \<in> set es. \<not> is_onStatusMessage e)"

subsection \<open>Sample inputs\<close>

definition returns :: "'a \<Rightarrow> thrown option" where
  "returns a = None"


definition no_callbacks :: options where
  "no_callbacks =
     \<lparr>port = 8765, host = None, path = None,
      onListening = None, onConnection = None, onDisconnect = None, onAircraftData = None,
      onSimulatorStatus = None, onStatusMessage = None, onPong = None, onError = None\<rparr>"

text \<open>Every callback is present and returns.\<close>

definition all_callbacks :: options where
  "all_callbacks =
     \<lparr>port = 8765, host = None, path = None,
      onListening = Some returns, onConnection = Some returns, onDisconnect = Some returns,
      onAircraftData = Some returns, onSimulatorStatus = Some returns,
      onStatusMessage = Some returns, onPong = Some returns, onError = Some returns\<rparr>"


text \<open>A platform for ASCII frames: the bytes of such a buffer are its text.\<close>

definition ascii_platform :: platform where
  "ascii_platform =
     \<lparr>utf8_toString = (\<lambda>b. b), Number_toString = (\<lambda>q. ''0''), ws_send_throws = (\<lambda>ws t. None)\<rparr>"

definition all_open :: "handle \<Rightarrow> ready_state" where
  "all_open ws = OPEN"



text \<open>A \<open>Status\<close> envelope with the given data.\<close>

definition status_envelope :: "json \<Rightarrow> json" where
  "status_envelope d = JObj [(''type'', JStr ''Status''), (''data'', d)]"

text \<open>The texts of the three canonical requests, with \<open>dq\<close> for the double quote.\<close>

definition dq :: string where
  "dq = [CHR 0x22]"




text \<open>A frame of a type the server does not know.\<close>

definition telemetry_text :: string where
  "telemetry_text = ''{'' @ dq @ ''type'' @ dq @ '':'' @ dq @ ''telemetry'' @ dq @ ''}''"


definition status_text :: string where
  "status_text =
     ''{'' @ dq @ ''type'' @ dq @ '':'' @ dq @ ''Status'' @ dq @ '','' @ dq @ ''data'' @ dq
       @ '':{'' @ dq @ ''code'' @ dq @ '':'' @ dq @ ''601'' @ dq @ '','' @ dq @ ''message'' @ dq
       @ '':'' @ dq @ ''MSFS'' @ dq @ ''}}''"

text \<open>
  A server that has a status with the simulator name \<open>MSFS\<close>, and an update whose
  \<open>simulator_name\<close> is \<open>null\<close>.
\<close>

definition msfs_status :: SimulatorStatus where
  "msfs_status =
     \<lparr>last_error = Some (JNum 0), simulator_connected = Some (JBool True),
      simulator_loaded = Some (JBool True), simulator_name = Some (JStr ''MSFS'')\<rparr>"

definition msfs_server :: server where
  "msfs_server = (init_server all_open)\<lparr>simulatorStatus := msfs_status\<rparr>"

definition null_name_update :: json where
  "null_name_update = JObj [(''simulator_name'', JNull)]"




section \<open>Properties of the status taxonomy\<close>

lemma ws_hd_not_digit: "w \<in> set ws1 \<union> set ws2 \<union> set ws3 \<Longrightarrow> \<not> is_digit (hd w)"
  by (auto simp: ws1_def ws2_def ws3_def is_digit_def)

lemma ws_head_digit:
  assumes "is_digit c"
  shows "ws_head (c # cs) = 0"
proof -
  have shape: "hd (take 1 (c # cs)) = c" "hd (take 2 (c # cs)) = c" "hd (take 3 (c # cs)) = c"
    by (simp_all add: numeral_2_eq_2 numeral_3_eq_3)
  have "take 1 (c # cs) \<notin> set ws1" "take 2 (c # cs) \<notin> set ws2" "take 3 (c # cs) \<notin> set ws3"
    using ws_hd_not_digit [of "take 1 (c # cs)"] ws_hd_not_digit [of "take 2 (c # cs)"]
      ws_hd_not_digit [of "take 3 (c # cs)"] assms
    unfolding shape by blast+
  then show ?thesis
    unfolding ws_head_def by simp
qed

lemma trim_start_digit: "is_digit c \<Longrightarrow> trim_start (c # cs) = c # cs"
  by (simp add: trim_start.simps ws_head_digit)

lemma digit_not_sign: "is_digit c \<Longrightarrow> c \<noteq> CHR ''+'' \<and> c \<noteq> CHR ''-''"
  by (auto simp: is_digit_def)

lemma takeWhile_digits:
  assumes "\<forall>c \<in> set ds. is_digit c" and "rest = [] \<or> \<not> is_digit (hd rest)"
  shows "takeWhile is_digit (ds @ rest) = ds"
proof -
  have "takeWhile is_digit rest = []"
    using assms(2) by (cases rest) auto
  with assms(1) show ?thesis
    by (simp add: takeWhile_append2)
qed

text \<open>
  \<open>parseInt\<close> reads the digits at the start of the string and ignores what follows them.
\<close>

lemma parseInt10_digits:
  assumes "ds \<noteq> []" and "\<forall>c \<in> set ds. is_digit c"
    and "rest = [] \<or> \<not> is_digit (hd rest)"
  shows "parseInt10 (ds @ rest) = Some (int (digits_value 0 ds))"
proof -
  from assms(1) obtain d ds' where ds: "ds = d # ds'"
    by (cases ds) auto
  with assms(2) have d: "is_digit d" by simp
  have trim: "trim_start (ds @ rest) = ds @ rest"
    using d by (simp add: ds trim_start_digit)
  have tw: "takeWhile is_digit (ds @ rest) = ds"
    using assms(2,3) by (rule takeWhile_digits)
  show ?thesis
    unfolding parseInt10_def trim
    using digit_not_sign [OF d] tw assms(1)
    by (simp add: ds Let_def)
qed

lemma category_band:
  "getStatusCodeCategory code = (case parseInt10 code of None \<Rightarrow> None | Some n \<Rightarrow> band n)"
  by (simp add: getStatusCodeCategory_def band_def split: option.split)

lemma known_codes_have_category:
  "\<forall>code \<in> set StatusCode_values. getStatusCodeCategory code \<noteq> None"
  by code_simp

text \<open>
  Claim C3, as the specification states it, fails: the category is not \<open>none\<close> for every
  non-numeric input. The string \<open>404abc\<close> is not a number, and
  \<open>parseInt("404abc", 10)\<close> is 404, so its category is client-error.
\<close>

theorem category_non_numeric_counterexample:
  "\<not> numeric_code ''404abc'' \<and> getStatusCodeCategory ''404abc'' = Some CLIENT_ERROR"
proof
  show "\<not> numeric_code ''404abc''"
    by (simp add: numeric_code_def is_digit_def)
  show "getStatusCodeCategory ''404abc'' = Some CLIENT_ERROR"
    by code_simp
qed

text \<open>
  Claim C3, amended: the category is decided by the integer that \<open>parseInt(code, 10)\<close>
  reads. For a string that starts with decimal digits \<open>ds\<close>, followed by nothing or by
  text \<open>rest\<close> that does not start with a digit, the category is the band of the value of
  \<open>ds\<close>: \<open>[200,300)\<close> success, \<open>[400,500)\<close> client-error, \<open>[500,600)\<close> server-error,
  \<open>[600,700)\<close> simulator, \<open>[900,1000)\<close> custom, and none outside the five bands. For every
  string, the category is none when \<open>parseInt\<close> reads no integer, and the band of that
  integer otherwise.
\<close>

theorem category_by_leading_integer:
  "(ds \<noteq> [] \<and> (\<forall>c \<in> set ds. is_digit c) \<and> (rest = [] \<or> \<not> is_digit (hd rest))
      \<longrightarrow> getStatusCodeCategory (ds @ rest) = band (int (digits_value 0 ds)))
   \<and> getStatusCodeCategory code = (case parseInt10 code of None \<Rightarrow> None | Some n \<Rightarrow> band n)"
proof (intro conjI impI)
  assume a: "ds \<noteq> [] \<and> (\<forall>c \<in> set ds. is_digit c) \<and> (rest = [] \<or> \<not> is_digit (hd rest))"
  then have "parseInt10 (ds @ rest) = Some (int (digits_value 0 ds))"
    by (intro parseInt10_digits) simp_all
  then show "getStatusCodeCategory (ds @ rest) = band (int (digits_value 0 ds))"
    by (simp add: category_band)
next
  show "getStatusCodeCategory code = (case parseInt10 code of None \<Rightarrow> None | Some n \<Rightarrow> band n)"
    by (rule category_band)
qed

theorem category_by_leading_integer_witness:
  "getStatusCodeCategory ''404'' = Some CLIENT_ERROR
   \<and> getStatusCodeCategory ''650'' = Some SIMULATOR
   \<and> getStatusCodeCategory ''150'' = None
   \<and> getStatusCodeCategory ''404abc'' = Some CLIENT_ERROR"
proof -
  have dig: "\<forall>c \<in> set ''404''. is_digit c" "\<forall>c \<in> set ''650''. is_digit c"
    "\<forall>c \<in> set ''150''. is_digit c" "\<not> is_digit (hd ''abc'')"
    by (simp_all add: is_digit_def)
  have val: "band (int (digits_value 0 ''404'')) = Some CLIENT_ERROR"
    "band (int (digits_value 0 ''650'')) = Some SIMULATOR"
    "band (int (digits_value 0 ''150'')) = None"
    by (simp_all add: band_def digit_val_def)
  show ?thesis
    using category_by_leading_integer [of "''404''" "[]" "[]"]
      category_by_leading_integer [of "''650''" "[]" "[]"]
      category_by_leading_integer [of "''150''" "[]" "[]"]
      category_by_leading_integer [of "''404''" "''abc''" "[]"]
      dig val
    by simp
qed

text \<open>
  Claim C8: every code that \<open>isValidStatusCode\<close> accepts has a category, and the converse
  fails: \<open>650\<close> has the category simulator and is not one of the enumerated values.
\<close>

theorem known_code_narrower_than_category:
  "(isValidStatusCode code \<longrightarrow> getStatusCodeCategory code \<noteq> None)
   \<and> getStatusCodeCategory ''650'' = Some SIMULATOR \<and> \<not> isValidStatusCode ''650''"
proof (intro conjI impI)
  assume "isValidStatusCode code"
  then show "getStatusCodeCategory code \<noteq> None"
    using known_codes_have_category by (simp add: isValidStatusCode_def)
next
  show "getStatusCodeCategory ''650'' = Some SIMULATOR"
    by code_simp
next
  show "\<not> isValidStatusCode ''650''"
    by (simp add: isValidStatusCode_def StatusCode_values_def)
qed

theorem known_code_narrower_than_category_witness:
  "isValidStatusCode ''404'' \<and> getStatusCodeCategory ''404'' \<noteq> None"
proof -
  have v: "isValidStatusCode ''404''"
    by (simp add: isValidStatusCode_def StatusCode_values_def)
  with known_code_narrower_than_category [of "''404''"] show ?thesis
    by simp
qed

section \<open>Properties of the connection manager\<close>

lemma trace_emit_event: "trace (emit_event e s) = trace s @ [e]"
  by (simp add: emit_event_def)

lemma client_emit_event: "client (emit_event e s) = client s"
  by (simp add: emit_event_def)

lemma simulatorStatus_emit_event: "simulatorStatus (emit_event e s) = simulatorStatus s"
  by (simp add: emit_event_def)

lemma fst_invoke:
  "fst (invoke cb ev a s) = (case cb of None \<Rightarrow> s | Some f \<Rightarrow> emit_event (ev a) s)"
  by (simp add: invoke_def split: option.split)

lemma fst_and_then_attach:
  "fst (and_then r (\<lambda>s'. (s'\<lparr>attached := insert ws (attached s')\<rparr>, Inr ()))) =
     (case snd r of Inl e \<Rightarrow> fst r | Inr u \<Rightarrow> (fst r)\<lparr>attached := insert ws (attached (fst r))\<rparr>)"
  by (cases r) (simp add: and_then_def split: sum.split)

lemma on_connection_client: "client (fst (on_connection opts b s)) = Some b"
  by (simp add: on_connection_def fst_and_then_attach fst_invoke adopt_def evict_def
      client_emit_event invoke_def
      split: option.split sum.split)

lemma on_connection_trace:
  "trace (fst (on_connection opts b s)) =
     trace (evict s) @ (case onConnection opts of None \<Rightarrow> [] | Some f \<Rightarrow> [Called_onConnection ()])"
  by (simp add: on_connection_def fst_and_then_attach fst_invoke adopt_def
      trace_emit_event invoke_def emit_event_def
      split: option.split sum.split)

text \<open>
  Claim C1: the manager refers to at most one peer (\<open>client\<close> is one optional handle). When
  a connection \<open>b\<close> arrives while \<open>a\<close> is attached, the first step closes \<open>a\<close> with code 1000
  and the reason \<open>New client connected\<close> while \<open>a\<close> is still the current peer; after the
  handler \<open>b\<close> is the current peer, and the close of \<open>a\<close> precedes the call of the connection
  callback (made when one is configured). A close event of a handle that is not the
  current one changes nothing: the current peer stays and no callback is called.
\<close>

theorem single_occupancy:
  "(client s = Some a \<longrightarrow>
      client (evict s) = Some a
      \<and> trace (evict s) = trace s @ [Ws_close a 1000 ''New client connected'']
      \<and> client (fst (on_connection opts b s)) = Some b
      \<and> trace (fst (on_connection opts b s)) =
          trace s @ [Ws_close a 1000 ''New client connected'']
            @ (case onConnection opts of None \<Rightarrow> [] | Some f \<Rightarrow> [Called_onConnection ()]))
   \<and> (client s \<noteq> Some h \<longrightarrow> on_close opts h s = (s, Inr ()))"
proof (intro conjI impI)
  assume a: "client s = Some a"
  show "client (evict s) = Some a"
    using a by (simp add: evict_def client_emit_event)
  show ev: "trace (evict s) = trace s @ [Ws_close a 1000 ''New client connected'']"
    using a by (simp add: evict_def trace_emit_event)
  show "client (fst (on_connection opts b s)) = Some b"
    by (rule on_connection_client)
  show "trace (fst (on_connection opts b s)) =
          trace s @ [Ws_close a 1000 ''New client connected'']
            @ (case onConnection opts of None \<Rightarrow> [] | Some f \<Rightarrow> [Called_onConnection ()])"
    by (simp add: on_connection_trace ev)
next
  assume "client s \<noteq> Some h"
  then show "on_close opts h s = (s, Inr ())"
    by (simp add: on_close_def)
qed

theorem single_occupancy_witness:
  "client (fst (on_connection all_callbacks 2 ((init_server all_open)\<lparr>client := Some 1\<rparr>))) = Some 2
   \<and> trace (fst (on_connection all_callbacks 2 ((init_server all_open)\<lparr>client := Some 1\<rparr>))) =
       [Ws_close 1 1000 ''New client connected'', Called_onConnection ()]
   \<and> on_close all_callbacks 1 ((init_server all_open)\<lparr>client := Some 2\<rparr>) =
       ((init_server all_open)\<lparr>client := Some 2\<rparr>, Inr ())"
proof -
  have c1: "client ((init_server all_open)\<lparr>client := Some 1\<rparr>) = Some 1"
    and c2: "client ((init_server all_open)\<lparr>client := Some 2\<rparr>) \<noteq> Some 1"
    and t: "trace ((init_server all_open)\<lparr>client := Some 1\<rparr>) = []"
    and cb: "onConnection all_callbacks = Some returns"
    by (simp_all add: init_server_def all_callbacks_def)
  show ?thesis
    using single_occupancy [of "(init_server all_open)\<lparr>client := Some 1\<rparr>" 1 all_callbacks 2 1]
      single_occupancy [of "(init_server all_open)\<lparr>client := Some 2\<rparr>" 2 all_callbacks 2 1]
      c1 c2 t cb
    by simp
qed

section \<open>Properties of the envelope codec\<close>


lemma parse_not_json: "parse_attempt ''not json'' = Inl (Thrown_error SyntaxError)"
  by code_simp

lemma parseMessage_not_json:
  "parseMessage P (RawString ''not json'') = Inr (unknown_envelope (JStr ''not json''))"
  by (simp add: parseMessage_def frame_text_def parse_not_json)




section \<open>Properties of the dispatch\<close>

lemma handleMessage_unhandled:
  assumes "map_of kvs ''type'' = Some (JStr ty)" and "ty \<notin> set handled_types"
  shows "handleMessage opts (JObj kvs) s = (s, Inr ())"
  using assms by (simp add: handleMessage_def reading_def getp_def handled_types_def)

lemma on_message_unhandled:
  assumes "parseMessage P r = Inr (JObj kvs)"
    and "map_of kvs ''type'' = Some (JStr ty)" and "ty \<notin> set handled_types"
  shows "on_message P opts r s = (s, Inr ())"
  using assms by (simp add: on_message_def reading_def handleMessage_unhandled)

text \<open>
  Claim C6: an envelope whose type is none of \<open>AircraftData\<close>, \<open>Status\<close>, \<open>pong\<close>, \<open>Error\<close>,
  \<open>error\<close> leaves the server as it was: no callback is called, the error callback
  included, and the simulator status is unchanged. This holds for \<open>handleMessage\<close> and for
  the message handler of a frame that decodes to such an envelope; the frame \<open>not json\<close>
  decodes to the type \<open>unknown\<close> with the text as data and is such a frame.
\<close>

theorem unhandled_type_ignored:
  "(map_of kvs ''type'' = Some (JStr ty) \<and> ty \<notin> set handled_types
      \<longrightarrow> handleMessage opts (JObj kvs) s = (s, Inr ()))
   \<and> (parseMessage P r = Inr (JObj kvs) \<and> map_of kvs ''type'' = Some (JStr ty)
        \<and> ty \<notin> set handled_types
      \<longrightarrow> on_message P opts r s = (s, Inr ()))
   \<and> parseMessage P (RawString ''not json'') = Inr (unknown_envelope (JStr ''not json''))
   \<and> on_message P opts (RawString ''not json'') s = (s, Inr ())"
proof (intro conjI impI)
  assume "map_of kvs ''type'' = Some (JStr ty) \<and> ty \<notin> set handled_types"
  then show "handleMessage opts (JObj kvs) s = (s, Inr ())"
    by (simp add: handleMessage_unhandled)
next
  assume "parseMessage P r = Inr (JObj kvs) \<and> map_of kvs ''type'' = Some (JStr ty)
        \<and> ty \<notin> set handled_types"
  then show "on_message P opts r s = (s, Inr ())"
    by (simp add: on_message_unhandled)
next
  show "parseMessage P (RawString ''not json'') = Inr (unknown_envelope (JStr ''not json''))"
    by (rule parseMessage_not_json)
next
  have "''unknown'' \<notin> set handled_types"
    by (simp add: handled_types_def)
  then show "on_message P opts (RawString ''not json'') s = (s, Inr ())"
    using on_message_unhandled [of P "RawString ''not json''"
        "[(''type'', JStr ''unknown''), (''data'', JStr ''not json'')]" "''unknown''" opts s]
      parseMessage_not_json [of P]
    by (simp add: unknown_envelope_def)
qed

lemma parse_telemetry: "parse_attempt telemetry_text = Inr (JObj [(''type'', JStr ''telemetry'')])"
  by code_simp

theorem unhandled_type_ignored_witness:
  "handleMessage all_callbacks (JObj [(''type'', JStr ''telemetry'')]) (init_server all_open) =
       (init_server all_open, Inr ())
   \<and> on_message ascii_platform all_callbacks (RawString telemetry_text) (init_server all_open) =
       (init_server all_open, Inr ())
   \<and> on_message ascii_platform all_callbacks (RawString ''not json'') (init_server all_open) =
       (init_server all_open, Inr ())"
proof -
  have ty: "map_of [(''type'', JStr ''telemetry'')] ''type'' = Some (JStr ''telemetry'')"
    "''telemetry'' \<notin> set handled_types"
    by (simp_all add: handled_types_def)
  have dec: "parseMessage ascii_platform (RawString telemetry_text) =
      Inr (JObj [(''type'', JStr ''telemetry'')])"
    by (simp add: parseMessage_def frame_text_def parse_telemetry)
  show ?thesis
    using unhandled_type_ignored [of "[(''type'', JStr ''telemetry'')]" "''telemetry''"
        all_callbacks "init_server all_open" ascii_platform "RawString telemetry_text"] ty dec
    by simp
qed

section \<open>Properties of the simulator-status merge\<close>

lemma getp_truthy: "truthy data \<Longrightarrow> getp data k = Inr (field_of data k)"
  by (auto simp: truthy_def getp_def field_of_def split: option.splits json.splits)

lemma simulatorStatus_fst_invoke:
  "simulatorStatus (fst (invoke cb ev a s)) = simulatorStatus s"
  by (simp add: fst_invoke simulatorStatus_emit_event split: option.split)

text \<open>The \<open>Status\<close> branch: the merged status is stored, then the callback is called.\<close>

lemma handleMessage_Status:
  assumes "getp (Some msg) ''type'' = Inr (Some (JStr ''Status''))"
    and "getp (Some msg) ''data'' = Inr data" and "truthy data"
  shows "handleMessage opts msg s =
      invoke (onSimulatorStatus opts) Called_onSimulatorStatus
        (merge_status (field_of data ''last_error'') (field_of data ''simulator_connected'')
           (field_of data ''simulator_loaded'') (field_of data ''simulator_name'')
           (simulatorStatus s))
        (s\<lparr>simulatorStatus :=
             merge_status (field_of data ''last_error'') (field_of data ''simulator_connected'')
               (field_of data ''simulator_loaded'') (field_of data ''simulator_name'')
               (simulatorStatus s)\<rparr>)"
  using assms by (simp add: handleMessage_def reading_def getp_truthy Let_def)

lemma simulatorStatus_Status:
  assumes "getp (Some msg) ''type'' = Inr (Some (JStr ''Status''))"
    and "getp (Some msg) ''data'' = Inr data" and "truthy data"
  shows "simulatorStatus (fst (handleMessage opts msg s)) =
      merge_status (field_of data ''last_error'') (field_of data ''simulator_connected'')
        (field_of data ''simulator_loaded'') (field_of data ''simulator_name'')
        (simulatorStatus s)"
  by (simp add: handleMessage_Status [OF assms] simulatorStatus_fst_invoke)

lemma status_envelope_fields:
  "getp (Some (status_envelope d)) ''type'' = Inr (Some (JStr ''Status''))"
  "getp (Some (status_envelope d)) ''data'' = Inr (Some d)"
  by (simp_all add: status_envelope_def getp_def)

lemma coalesce_typed: "u \<noteq> Some JNull \<Longrightarrow> coalesce u cur = merge_field u cur"
  by (auto simp: coalesce_def nullish_def merge_field_def split: option.splits)

lemma merge_status_spec:
  assumes "partial_status (update_of data)"
  shows "merge_status (field_of data ''last_error'') (field_of data ''simulator_connected'')
           (field_of data ''simulator_loaded'') (field_of data ''simulator_name'') cur =
         merge_spec (update_of data) cur"
proof -
  have "coalesce (field_of data ''last_error'') (last_error cur) =
          merge_field (field_of data ''last_error'') (last_error cur)"
    and "coalesce (field_of data ''simulator_connected'') (simulator_connected cur) =
          merge_field (field_of data ''simulator_connected'') (simulator_connected cur)"
    and "coalesce (field_of data ''simulator_loaded'') (simulator_loaded cur) =
          merge_field (field_of data ''simulator_loaded'') (simulator_loaded cur)"
    and "coalesce (field_of data ''simulator_name'') (simulator_name cur) =
          merge_field (field_of data ''simulator_name'') (simulator_name cur)"
    using assms by (auto simp: partial_status_def update_of_def intro!: coalesce_typed)
  then show ?thesis
    by (simp add: merge_status_def merge_spec_def update_of_def)
qed

lemma status_empty_update:
  "simulatorStatus (fst (handleMessage opts (status_envelope (JObj [])) s)) = simulatorStatus s"
proof -
  have "truthy (Some (JObj []))"
    by (simp add: truthy_def)
  then show ?thesis
    by (simp add: simulatorStatus_Status [OF status_envelope_fields] field_of_def getp_def
        merge_status_def coalesce_def nullish_def)
qed

lemma status_connected_update:
  "simulatorStatus (fst (handleMessage opts
       (status_envelope (JObj [(''simulator_connected'', JBool True)])) s)) =
     (simulatorStatus s)\<lparr>simulator_connected := Some (JBool True)\<rparr>"
proof -
  have "truthy (Some (JObj [(''simulator_connected'', JBool True)]))"
    by (simp add: truthy_def)
  then show ?thesis
    by (simp add: simulatorStatus_Status [OF status_envelope_fields] field_of_def getp_def
        merge_status_def coalesce_def nullish_def)
qed

lemma status_name_update:
  "simulatorStatus (fst (handleMessage opts
       (status_envelope (JObj [(''simulator_name'', JStr ''MSFS'')])) s)) =
     (simulatorStatus s)\<lparr>simulator_name := Some (JStr ''MSFS'')\<rparr>"
proof -
  have "truthy (Some (JObj [(''simulator_name'', JStr ''MSFS'')]))"
    by (simp add: truthy_def)
  then show ?thesis
    by (simp add: simulatorStatus_Status [OF status_envelope_fields] field_of_def getp_def
        merge_status_def coalesce_def nullish_def)
qed

lemma coalesce_present: "coalesce u cur = merge_field_present u cur"
  by (auto simp: coalesce_def nullish_def merge_field_present_def split: option.splits)

lemma merge_status_present:
  "merge_status (field_of data ''last_error'') (field_of data ''simulator_connected'')
     (field_of data ''simulator_loaded'') (field_of data ''simulator_name'') cur =
   merge_present (update_of data) cur"
  by (simp add: merge_status_def merge_present_def update_of_def coalesce_present)

lemma null_name_update_status:
  "simulatorStatus (fst (handleMessage opts (status_envelope null_name_update) msfs_server)) =
     msfs_status"
proof -
  have "truthy (Some null_name_update)"
    by (simp add: truthy_def null_name_update_def)
  then show ?thesis
    by (simp add: simulatorStatus_Status [OF status_envelope_fields] field_of_def getp_def
        null_name_update_def merge_status_def coalesce_def nullish_def msfs_server_def
        msfs_status_def)
qed

text \<open>
  Claim C4, as the specification states it, fails. The update \<open>{simulator_name: null}\<close>
  has the field \<open>simulator_name\<close> present. The merge of the claim takes the update's value,
  \<open>null\<close>; the code keeps the previous name \<open>MSFS\<close>.
\<close>

theorem status_merge_null_counterexample:
  "field_of (Some null_name_update) ''simulator_name'' = Some JNull
   \<and> simulator_name (merge_spec (update_of (Some null_name_update)) (simulatorStatus msfs_server)) =
       Some JNull
   \<and> simulator_name
        (simulatorStatus (fst (handleMessage all_callbacks (status_envelope null_name_update)
           msfs_server))) = Some (JStr ''MSFS'')
   \<and> simulatorStatus (fst (handleMessage all_callbacks (status_envelope null_name_update)
        msfs_server)) \<noteq>
      merge_spec (update_of (Some null_name_update)) (simulatorStatus msfs_server)"
proof -
  have f: "field_of (Some null_name_update) ''simulator_name'' = Some JNull"
    by (simp add: field_of_def getp_def null_name_update_def)
  have m: "simulator_name
      (merge_spec (update_of (Some null_name_update)) (simulatorStatus msfs_server)) = Some JNull"
    by (simp add: merge_spec_def merge_field_def update_of_def f)
  have c: "simulator_name
        (simulatorStatus (fst (handleMessage all_callbacks (status_envelope null_name_update)
           msfs_server))) = Some (JStr ''MSFS'')"
    by (simp add: null_name_update_status msfs_status_def)
  from m c have "simulatorStatus (fst (handleMessage all_callbacks
        (status_envelope null_name_update) msfs_server)) \<noteq>
      merge_spec (update_of (Some null_name_update)) (simulatorStatus msfs_server)"
    by auto
  with f m c show ?thesis
    by simp
qed

text \<open>
  Claim C4, amended: the merge is field-wise for the four fields: each field takes the
  update's value when the field is present and not \<open>null\<close>, and retains the previous value
  otherwise (absent or \<open>null\<close>). For an update without a \<open>null\<close> field this is the merge of
  the specification. The empty update leaves the status unchanged, and
  \<open>{simulator_connected: true}\<close> followed by \<open>{simulator_name: "MSFS"}\<close> sets both fields
  and changes no other.
\<close>

theorem status_merge_fieldwise:
  "(getp (Some msg) ''type'' = Inr (Some (JStr ''Status'')) \<and> getp (Some msg) ''data'' = Inr data
      \<and> truthy data
      \<longrightarrow> simulatorStatus (fst (handleMessage opts msg s)) =
            merge_present (update_of data) (simulatorStatus s))
   \<and> (partial_status (update_of data)
      \<longrightarrow> merge_present (update_of data) cur = merge_spec (update_of data) cur)
   \<and> simulatorStatus (fst (handleMessage opts (status_envelope (JObj [])) s)) = simulatorStatus s
   \<and> simulatorStatus
        (fst (handleMessage opts (status_envelope (JObj [(''simulator_name'', JStr ''MSFS'')]))
           (fst (handleMessage opts
              (status_envelope (JObj [(''simulator_connected'', JBool True)])) s)))) =
      (simulatorStatus s)
        \<lparr>simulator_connected := Some (JBool True), simulator_name := Some (JStr ''MSFS'')\<rparr>"
proof (intro conjI impI)
  assume a: "getp (Some msg) ''type'' = Inr (Some (JStr ''Status''))
      \<and> getp (Some msg) ''data'' = Inr data \<and> truthy data"
  then have "simulatorStatus (fst (handleMessage opts msg s)) =
      merge_status (field_of data ''last_error'') (field_of data ''simulator_connected'')
        (field_of data ''simulator_loaded'') (field_of data ''simulator_name'')
        (simulatorStatus s)"
    by (intro simulatorStatus_Status) simp_all
  then show "simulatorStatus (fst (handleMessage opts msg s)) =
      merge_present (update_of data) (simulatorStatus s)"
    by (simp add: merge_status_present)
next
  assume "partial_status (update_of data)"
  then have "merge_status (field_of data ''last_error'') (field_of data ''simulator_connected'')
        (field_of data ''simulator_loaded'') (field_of data ''simulator_name'') cur =
      merge_spec (update_of data) cur"
    by (rule merge_status_spec)
  then show "merge_present (update_of data) cur = merge_spec (update_of data) cur"
    by (simp add: merge_status_present)
next
  show "simulatorStatus (fst (handleMessage opts (status_envelope (JObj [])) s)) =
      simulatorStatus s"
    by (rule status_empty_update)
next
  show "simulatorStatus
        (fst (handleMessage opts (status_envelope (JObj [(''simulator_name'', JStr ''MSFS'')]))
           (fst (handleMessage opts
              (status_envelope (JObj [(''simulator_connected'', JBool True)])) s)))) =
      (simulatorStatus s)
        \<lparr>simulator_connected := Some (JBool True), simulator_name := Some (JStr ''MSFS'')\<rparr>"
    by (simp add: status_name_update status_connected_update)
qed

theorem status_merge_fieldwise_witness:
  "simulatorStatus (fst (handleMessage all_callbacks
       (status_envelope (JObj [(''simulator_loaded'', JBool False), (''last_error'', JNum 7)]))
       msfs_server)) =
     \<lparr>last_error = Some (JNum 7), simulator_connected = Some (JBool True),
      simulator_loaded = Some (JBool False), simulator_name = Some (JStr ''MSFS'')\<rparr>
   \<and> merge_spec
        (update_of (Some (JObj [(''simulator_loaded'', JBool False), (''last_error'', JNum 7)])))
        msfs_status =
     \<lparr>last_error = Some (JNum 7), simulator_connected = Some (JBool True),
      simulator_loaded = Some (JBool False), simulator_name = Some (JStr ''MSFS'')\<rparr>
   \<and> simulatorStatus (fst (handleMessage all_callbacks (status_envelope null_name_update)
        msfs_server)) = msfs_status"
proof -
  let ?d = "JObj [(''simulator_loaded'', JBool False), (''last_error'', JNum 7)]"
  have u: "update_of (Some ?d) =
      \<lparr>last_error = Some (JNum 7), simulator_connected = None,
       simulator_loaded = Some (JBool False), simulator_name = None\<rparr>"
    by (simp add: update_of_def field_of_def getp_def)
  have un: "update_of (Some null_name_update) =
      \<lparr>last_error = None, simulator_connected = None,
       simulator_loaded = None, simulator_name = Some JNull\<rparr>"
    by (simp add: update_of_def field_of_def getp_def null_name_update_def)
  have h: "getp (Some (status_envelope ?d)) ''type'' = Inr (Some (JStr ''Status''))"
    "getp (Some (status_envelope ?d)) ''data'' = Inr (Some ?d)"
    "truthy (Some ?d)" "partial_status (update_of (Some ?d))"
    unfolding u
    by (simp_all add: status_envelope_fields truthy_def partial_status_def)
  have hn: "getp (Some (status_envelope null_name_update)) ''type'' = Inr (Some (JStr ''Status''))"
    "getp (Some (status_envelope null_name_update)) ''data'' = Inr (Some null_name_update)"
    "truthy (Some null_name_update)"
    by (simp_all add: status_envelope_fields truthy_def null_name_update_def)
  have s: "simulatorStatus msfs_server = msfs_status"
    by (simp add: msfs_server_def)
  have v: "merge_present (update_of (Some ?d)) msfs_status =
      \<lparr>last_error = Some (JNum 7), simulator_connected = Some (JBool True),
       simulator_loaded = Some (JBool False), simulator_name = Some (JStr ''MSFS'')\<rparr>"
    "merge_present (update_of (Some null_name_update)) msfs_status = msfs_status"
    unfolding u un
    by (simp_all add: merge_present_def merge_field_present_def msfs_status_def)
  show ?thesis
    using status_merge_fieldwise [of "status_envelope ?d" "Some ?d" all_callbacks msfs_server
        msfs_status]
      status_merge_fieldwise [of "status_envelope null_name_update" "Some null_name_update"
        all_callbacks msfs_server msfs_status]
      h hn
    by (simp add: s v)
qed

text \<open>
  Claim C10: in the merge, a field that is present with the value \<open>null\<close> is treated like an
  absent field, the previous value is retained; a present value other than \<open>null\<close>, the
  boolean \<open>false\<close> included, is adopted.
\<close>

theorem status_merge_null_retains:
  "getp (Some msg) ''type'' = Inr (Some (JStr ''Status'')) \<and> getp (Some msg) ''data'' = Inr data
      \<and> truthy data
   \<longrightarrow> (field_of data ''last_error'' = Some JNull
          \<longrightarrow> last_error (simulatorStatus (fst (handleMessage opts msg s))) =
                last_error (simulatorStatus s))
     \<and> (field_of data ''simulator_connected'' = Some JNull
          \<longrightarrow> simulator_connected (simulatorStatus (fst (handleMessage opts msg s))) =
                simulator_connected (simulatorStatus s))
     \<and> (field_of data ''simulator_loaded'' = Some JNull
          \<longrightarrow> simulator_loaded (simulatorStatus (fst (handleMessage opts msg s))) =
                simulator_loaded (simulatorStatus s))
     \<and> (field_of data ''simulator_name'' = Some JNull
          \<longrightarrow> simulator_name (simulatorStatus (fst (handleMessage opts msg s))) =
                simulator_name (simulatorStatus s))
     \<and> (field_of data ''simulator_connected'' = Some (JBool False)
          \<longrightarrow> simulator_connected (simulatorStatus (fst (handleMessage opts msg s))) =
                Some (JBool False))
     \<and> (field_of data ''simulator_loaded'' = Some (JBool False)
          \<longrightarrow> simulator_loaded (simulatorStatus (fst (handleMessage opts msg s))) =
                Some (JBool False))
     \<and> (\<forall>v. v \<noteq> JNull \<longrightarrow>
          (field_of data ''last_error'' = Some v
             \<longrightarrow> last_error (simulatorStatus (fst (handleMessage opts msg s))) = Some v)
          \<and> (field_of data ''simulator_connected'' = Some v
             \<longrightarrow> simulator_connected (simulatorStatus (fst (handleMessage opts msg s))) = Some v)
          \<and> (field_of data ''simulator_loaded'' = Some v
             \<longrightarrow> simulator_loaded (simulatorStatus (fst (handleMessage opts msg s))) = Some v)
          \<and> (field_of data ''simulator_name'' = Some v
             \<longrightarrow> simulator_name (simulatorStatus (fst (handleMessage opts msg s))) = Some v))"
proof (intro impI)
  assume "getp (Some msg) ''type'' = Inr (Some (JStr ''Status''))
      \<and> getp (Some msg) ''data'' = Inr data \<and> truthy data"
  then have eq: "simulatorStatus (fst (handleMessage opts msg s)) =
      merge_status (field_of data ''last_error'') (field_of data ''simulator_connected'')
        (field_of data ''simulator_loaded'') (field_of data ''simulator_name'')
        (simulatorStatus s)"
    by (intro simulatorStatus_Status) simp_all
  show "(field_of data ''last_error'' = Some JNull
          \<longrightarrow> last_error (simulatorStatus (fst (handleMessage opts msg s))) =
                last_error (simulatorStatus s))
     \<and> (field_of data ''simulator_connected'' = Some JNull
          \<longrightarrow> simulator_connected (simulatorStatus (fst (handleMessage opts msg s))) =
                simulator_connected (simulatorStatus s))
     \<and> (field_of data ''simulator_loaded'' = Some JNull
          \<longrightarrow> simulator_loaded (simulatorStatus (fst (handleMessage opts msg s))) =
                simulator_loaded (simulatorStatus s))
     \<and> (field_of data ''simulator_name'' = Some JNull
          \<longrightarrow> simulator_name (simulatorStatus (fst (handleMessage opts msg s))) =
                simulator_name (simulatorStatus s))
     \<and> (field_of data ''simulator_connected'' = Some (JBool False)
          \<longrightarrow> simulator_connected (simulatorStatus (fst (handleMessage opts msg s))) =
                Some (JBool False))
     \<and> (field_of data ''simulator_loaded'' = Some (JBool False)
          \<longrightarrow> simulator_loaded (simulatorStatus (fst (handleMessage opts msg s))) =
                Some (JBool False))
     \<and> (\<forall>v. v \<noteq> JNull \<longrightarrow>
          (field_of data ''last_error'' = Some v
             \<longrightarrow> last_error (simulatorStatus (fst (handleMessage opts msg s))) = Some v)
          \<and> (field_of data ''simulator_connected'' = Some v
             \<longrightarrow> simulator_connected (simulatorStatus (fst (handleMessage opts msg s))) = Some v)
          \<and> (field_of data ''simulator_loaded'' = Some v
             \<longrightarrow> simulator_loaded (simulatorStatus (fst (handleMessage opts msg s))) = Some v)
          \<and> (field_of data ''simulator_name'' = Some v
             \<longrightarrow> simulator_name (simulatorStatus (fst (handleMessage opts msg s))) = Some v))"
    unfolding eq by (simp add: merge_status_def coalesce_def nullish_def)
qed

theorem status_merge_null_retains_witness:
  "simulator_name (simulatorStatus (fst (handleMessage all_callbacks
       (status_envelope (JObj [(''simulator_name'', JNull), (''simulator_connected'', JBool False)]))
       ((init_server all_open)\<lparr>simulatorStatus :=
          \<lparr>last_error = Some (JNum 0), simulator_connected = Some (JBool True),
           simulator_loaded = Some (JBool True), simulator_name = Some (JStr ''MSFS'')\<rparr>\<rparr>)))) =
     Some (JStr ''MSFS'')
   \<and> simulator_connected (simulatorStatus (fst (handleMessage all_callbacks
       (status_envelope (JObj [(''simulator_name'', JNull), (''simulator_connected'', JBool False)]))
       ((init_server all_open)\<lparr>simulatorStatus :=
          \<lparr>last_error = Some (JNum 0), simulator_connected = Some (JBool True),
           simulator_loaded = Some (JBool True), simulator_name = Some (JStr ''MSFS'')\<rparr>\<rparr>)))) =
     Some (JBool False)"
proof -
  let ?d = "JObj [(''simulator_name'', JNull), (''simulator_connected'', JBool False)]"
  let ?s = "(init_server all_open)\<lparr>simulatorStatus :=
          \<lparr>last_error = Some (JNum 0), simulator_connected = Some (JBool True),
           simulator_loaded = Some (JBool True), simulator_name = Some (JStr ''MSFS'')\<rparr>\<rparr>"
  have h: "getp (Some (status_envelope ?d)) ''type'' = Inr (Some (JStr ''Status''))"
    "getp (Some (status_envelope ?d)) ''data'' = Inr (Some ?d)"
    "truthy (Some ?d)"
    by (simp_all add: status_envelope_fields truthy_def)
  have f: "field_of (Some ?d) ''simulator_name'' = Some JNull"
    "field_of (Some ?d) ''simulator_connected'' = Some (JBool False)"
    by (simp_all add: field_of_def getp_def)
  show ?thesis
    using status_merge_null_retains [of "status_envelope ?d" "Some ?d" all_callbacks ?s] h f
    by simp
qed

section \<open>Callback exceptions\<close>


















section \<open>Round trip of the outbound requests\<close>










section \<open>The \<open>onStatusMessage\<close> callback\<close>

lemma nsm_emit:
  "\<not> is_onStatusMessage e \<Longrightarrow> no_status_message (trace s)
    \<Longrightarrow> no_status_message (trace (emit_event e s))"
  by (simp add: no_status_message_def emit_event_def)

lemma nsm_invoke:
  "(\<And>x. \<not> is_onStatusMessage (ev x)) \<Longrightarrow> no_status_message (trace s)
    \<Longrightarrow> no_status_message (trace (fst (invoke cb ev a s)))"
  by (simp add: fst_invoke nsm_emit split: option.split)

lemma nsm_reading:
  "no_status_message (trace s) \<Longrightarrow> (\<And>v. no_status_message (trace (fst (k v))))
    \<Longrightarrow> no_status_message (trace (fst (reading r s k)))"
  by (simp add: reading_def split: sum.split)

lemma nsm_and_then:
  "no_status_message (trace (fst r))
    \<Longrightarrow> (\<And>s'. no_status_message (trace s') \<Longrightarrow> no_status_message (trace (fst (k s'))))
    \<Longrightarrow> no_status_message (trace (fst (and_then r k)))"
  by (cases r) (simp add: and_then_def split: sum.split)

lemma nsm_if:
  "no_status_message (trace (fst a)) \<Longrightarrow> no_status_message (trace (fst b))
    \<Longrightarrow> no_status_message (trace (fst (if c then a else b)))"
  by simp

lemma nsm_handleMessage:
  assumes "no_status_message (trace s)"
  shows "no_status_message (trace (fst (handleMessage opts m s)))"
  unfolding handleMessage_def Let_def
  by (intro nsm_reading nsm_if nsm_invoke)
    (simp_all add: assms is_onStatusMessage_def)

lemma nsm_on_message:
  assumes "no_status_message (trace s)"
  shows "no_status_message (trace (fst (on_message P opts r s)))"
proof -
  obtain s' out where h: "reading (parseMessage P r) s (\<lambda>m. handleMessage opts m s) = (s', out)"
    by (cases "reading (parseMessage P r) s (\<lambda>m. handleMessage opts m s)") auto
  have "no_status_message (trace (fst (reading (parseMessage P r) s (\<lambda>m. handleMessage opts m s))))"
    by (intro nsm_reading assms nsm_handleMessage)
  then have s': "no_status_message (trace s')"
    by (simp add: h)
  show ?thesis
    unfolding on_message_def h
    by (cases out) (simp_all add: s' nsm_invoke is_onStatusMessage_def)
qed

lemma nsm_send:
  assumes "no_status_message (trace s)"
  shows "no_status_message (trace (fst (send P opts data s)))"
proof (cases "client s")
  case None
  then show ?thesis by (simp add: send_def assms)
next
  case (Some ws)
  show ?thesis
  proof (cases "ws_send_throws P ws (serialize P data)")
    case None
    then show ?thesis
      using Some by (simp add: send_def assms nsm_emit is_onStatusMessage_def)
  next
    case (Some err)
    have "no_status_message (trace (fst (and_then
        (invoke (onError opts) Called_onError (to_error err) s) (\<lambda>s'. (s', Inr False)))))"
      by (intro nsm_and_then nsm_invoke) (simp_all add: assms is_onStatusMessage_def)
    then show ?thesis
      using Some \<open>client s = Some ws\<close> by (simp add: send_def assms)
  qed
qed

lemma nsm_on_connection:
  assumes "no_status_message (trace s)"
  shows "no_status_message (trace (fst (on_connection opts ws s)))"
proof -
  have "no_status_message (trace (adopt ws (evict s)))"
    using assms
    by (auto simp: adopt_def evict_def is_onStatusMessage_def intro!: nsm_emit split: option.split)
  then show ?thesis
    unfolding on_connection_def
    by (intro nsm_and_then nsm_invoke) (simp_all add: is_onStatusMessage_def)
qed

lemma nsm_step:
  assumes "no_status_message (trace s)"
  shows "no_status_message (trace (step P opts s i))"
proof (cases i)
  case Listening
  then show ?thesis
    by (simp add: step_def on_listening_def nsm_invoke assms is_onStatusMessage_def)
next
  case (Connection ws)
  then show ?thesis by (simp add: step_def nsm_on_connection assms)
next
  case (Message ws r)
  then show ?thesis by (simp add: step_def nsm_on_message assms)
next
  case (Close ws)
  then show ?thesis
    by (simp add: step_def on_close_def nsm_invoke assms is_onStatusMessage_def)
next
  case (SocketError ws err)
  then show ?thesis
    by (simp add: step_def on_error_def nsm_invoke assms is_onStatusMessage_def)
next
  case (ServerError err)
  then show ?thesis
    by (simp add: step_def on_error_def nsm_invoke assms is_onStatusMessage_def)
next
  case (CallSend data)
  then show ?thesis by (simp add: step_def nsm_send assms)
next
  case CallRequestAircraftData
  then show ?thesis by (simp add: step_def requestAircraftData_def nsm_send assms)
next
  case CallRequestSimulatorStatus
  then show ?thesis by (simp add: step_def requestSimulatorStatus_def nsm_send assms)
next
  case CallPing
  then show ?thesis by (simp add: step_def ping_def nsm_send assms)
next
  case CallClose
  then show ?thesis
    using assms
    by (auto simp: step_def close_server_def emit_event_def no_status_message_def
        is_onStatusMessage_def split: option.split)
qed

lemma nsm_run:
  "no_status_message (trace s) \<Longrightarrow> no_status_message (trace (run P opts s inputs))"
  unfolding run_def
  by (induction inputs arbitrary: s) (simp_all add: nsm_step)

text \<open>
  Claim C9: the \<open>onStatusMessage\<close> callback is stored and never called. No handler of the
  transport's events and no public method calls it: after any run of the server from its
  initial state, and after the message handler of any frame, \<open>Status\<close> frames included,
  the effects hold no call of it.
\<close>

theorem onStatusMessage_never_called:
  "no_status_message (trace (run P opts (init_server rs) inputs))
   \<and> (no_status_message (trace s) \<longrightarrow> no_status_message (trace (fst (on_message P opts r s))))"
proof (intro conjI impI)
  have "no_status_message (trace (init_server rs))"
    by (simp add: init_server_def no_status_message_def)
  then show "no_status_message (trace (run P opts (init_server rs) inputs))"
    by (rule nsm_run)
next
  assume "no_status_message (trace s)"
  then show "no_status_message (trace (fst (on_message P opts r s)))"
    by (rule nsm_on_message)
qed

lemma parse_attempt_status_text:
  "parse_attempt status_text =
     Inr (status_envelope (JObj [(''code'', JStr ''601''), (''message'', JStr ''MSFS'')]))"
  by code_simp

lemma parse_status_text:
  "parseMessage P (RawString status_text) =
     Inr (status_envelope (JObj [(''code'', JStr ''601''), (''message'', JStr ''MSFS'')]))"
  by (simp add: parseMessage_def frame_text_def parse_attempt_status_text)

theorem onStatusMessage_never_called_witness:
  "no_status_message (trace (init_server all_open))
   \<and> trace (fst (on_message ascii_platform all_callbacks (RawString status_text)
        (init_server all_open))) =
       [Called_onSimulatorStatus (simulatorStatus (init_server all_open))]
   \<and> no_status_message (trace (fst (on_message ascii_platform all_callbacks
        (RawString status_text) (init_server all_open))))"
proof -
  have n: "no_status_message (trace (init_server all_open))"
    by (simp add: init_server_def no_status_message_def)
  let ?d = "JObj [(''code'', JStr ''601''), (''message'', JStr ''MSFS'')]"
  have t: "truthy (Some ?d)"
    by (simp add: truthy_def)
  have hm: "handleMessage all_callbacks (status_envelope ?d) (init_server all_open) =
      (emit_event (Called_onSimulatorStatus (simulatorStatus (init_server all_open)))
         (init_server all_open), Inr ())"
    by (simp add: handleMessage_Status [OF status_envelope_fields t] field_of_def getp_def
        merge_status_def coalesce_def nullish_def invoke_def all_callbacks_def returns_def
        init_server_def)
  have tr: "trace (fst (on_message ascii_platform all_callbacks (RawString status_text)
        (init_server all_open))) =
       [Called_onSimulatorStatus (simulatorStatus (init_server all_open))]"
    by (simp add: on_message_def reading_def parse_status_text hm trace_emit_event)
      (simp add: init_server_def)
  show ?thesis
    using onStatusMessage_never_called [of ascii_platform all_callbacks all_open "[]"
        "init_server all_open" "RawString status_text"] n tr
    by simp
qed

end
